theory Spec2Isabelle
  imports Main "HOL-Library.Word"
begin

section \<open>Data model\<close>

text \<open>
  The embedding follows the newest revision of the package: \<^verbatim>\<open>types.go\<close>, the
  \<^verbatim>\<open>Template\<close> type with \<^verbatim>\<open>Track/Untrack/Trace/NoTrace\<close>, and the
  \<^verbatim>\<open>baseError\<close> type with the tag methods.

  What the Go runtime and standard library supply is taken as a parameter:
  \<^item> \<^verbatim>\<open>fmt.Sprintf\<close> is an argument \<open>S\<close> of every function that formats;
  \<^item> the clock, \<^verbatim>\<open>crypto/sha1\<close> and \<^verbatim>\<open>debug.Stack()\<close> are the fields of a
    record \<open>runtime\<close> handed to every function that materializes an error.
\<close>

type_synonym ErrorType = string

text \<open>A value of Go's \<^verbatim>\<open>interface{}\<close>, as far as the package stores one.\<close>

datatype goValue = VNil | VStr string | VInt int

type_synonym sprintf = "string \<Rightarrow> goValue list \<Rightarrow> string"

text \<open>
  \<^verbatim>\<open>type flags struct\<close>. A Go map is a reference that may be nil: \<open>None\<close> is the nil
  map, \<open>Some m\<close> an allocated one.
\<close>

record flags =
  track :: bool
  trace :: bool
  isSafe :: bool
  tags :: "(string \<rightharpoonup> goValue) option"
  strTags :: "(string \<rightharpoonup> string) option"
  intTags :: "(string \<rightharpoonup> int) option"

text \<open>
  \<^verbatim>\<open>type trace struct { id, stackTrace string }\<close>; the field \<^verbatim>\<open>id\<close> is named
  \<open>trace_id\<close> here, since \<open>id\<close> is the identity function of HOL.
\<close>

record trace =
  trace_id :: string
  stackTrace :: string

record apiData =
  httpCode :: int
  errCode :: int

text \<open>
  \<^verbatim>\<open>type content struct { message string; cause Error }\<close> and \<^verbatim>\<open>type baseError struct\<close>.
  \<^verbatim>\<open>baseError\<close> is the only implementation of the interface \<^verbatim>\<open>Error\<close> in the
  package, so a value of \<^verbatim>\<open>Error\<close> is a \<open>baseError option\<close> (\<open>None\<close> is nil).
  The field \<^verbatim>\<open>trace\<close> of \<^verbatim>\<open>baseError\<close> is the selector \<open>e_trace\<close>.
\<close>

datatype baseError =
  BaseError (errType: ErrorType) (content: content) (flags: flags) (e_trace: trace) (api: apiData)
and content =
  Content (message: string) (cause: "baseError option")

text \<open>\<^verbatim>\<open>type Template struct { errType; content; flags; api }\<close>: no trace field.\<close>

record Template =
  t_errType :: ErrorType
  t_content :: content
  t_flags :: flags
  t_api :: apiData

text \<open>
  A value of Go's interface \<^verbatim>\<open>error\<close>: an \<^verbatim>\<open>Error\<close> of this package, or a foreign
  error, of which the package reads the name of the concrete type (\<^verbatim>\<open>%T\<close>) and the
  text of \<^verbatim>\<open>Error()\<close>. nil is \<open>None\<close> of \<open>goError option\<close>.
\<close>

datatype goError = Lib baseError | Foreign (typeName: string) (errorText: string)

text \<open>\<^verbatim>\<open>TypedError\<close>: a template or an error, read through \<^verbatim>\<open>GetType()\<close>.\<close>

datatype typedError = OfTemplate Template | OfError baseError

datatype panic = NilMapAssignment

text \<open>The clock, the hash and the stack dump at one call of \<^verbatim>\<open>make\<close>.\<close>

record runtime =
  now :: string
  sha1 :: "string \<Rightarrow> 160 word"
  stack :: string

definition defaultHTTPCode :: int where "defaultHTTPCode = 500"
definition defaultErrCode :: int where "defaultErrCode = 0"

section \<open>Accessors\<close>

definition GetType :: "baseError \<Rightarrow> ErrorType" where
  "GetType err = errType err"

definition GetID :: "baseError \<Rightarrow> string" where
  "GetID err = trace_id (e_trace err)"

definition GetStackTrace :: "baseError \<Rightarrow> string" where
  "GetStackTrace err = stackTrace (e_trace err)"

definition Template_GetType :: "Template \<Rightarrow> ErrorType" where
  "Template_GetType t = t_errType t"

section \<open>Mutators of baseError\<close>

definition Untrack :: "baseError \<Rightarrow> baseError" where
  "Untrack err = BaseError (errType err) (content err) ((flags err)\<lparr>track := False\<rparr>)
     (e_trace err) (api err)"

definition NoTrace :: "baseError \<Rightarrow> baseError" where
  "NoTrace err = BaseError (errType err) (content err) ((flags err)\<lparr>trace := False\<rparr>)
     (e_trace err) (api err)"

definition Safe :: "baseError \<Rightarrow> baseError" where
  "Safe err = BaseError (errType err) (content err) ((flags err)\<lparr>isSafe := True\<rparr>)
     (e_trace err) (api err)"

definition Msg :: "sprintf \<Rightarrow> baseError \<Rightarrow> string \<Rightarrow> goValue list \<Rightarrow> baseError" where
  "Msg S err msg args =
     BaseError (errType err)
       (Content (if length args = 0 then msg else S (S ''%s'' [VStr msg]) args)
                (cause (content err)))
       ((flags err)\<lparr>isSafe := False\<rparr>) (e_trace err) (api err)"

definition Args :: "sprintf \<Rightarrow> baseError \<Rightarrow> goValue list \<Rightarrow> baseError" where
  "Args S err args =
     BaseError (errType err)
       (Content (S (message (content err)) args) (cause (content err)))
       (flags err) (e_trace err) (api err)"

definition Expand :: "sprintf \<Rightarrow> baseError \<Rightarrow> string \<Rightarrow> goValue list \<Rightarrow> baseError" where
  "Expand S err msg args =
     BaseError (errType err) (Content (S msg args) (Some err))
       ((flags err)\<lparr>isSafe := False\<rparr>) (e_trace err) (api err)"

definition ExpandSafe :: "sprintf \<Rightarrow> baseError \<Rightarrow> string \<Rightarrow> goValue list \<Rightarrow> baseError" where
  "ExpandSafe S err msg args =
     BaseError (errType err) (Content (S msg args) (Some err))
       ((flags err)\<lparr>isSafe := True\<rparr>) (e_trace err) (api err)"

definition HTTPCode :: "baseError \<Rightarrow> int \<Rightarrow> baseError" where
  "HTTPCode err code = BaseError (errType err) (content err) (flags err) (e_trace err)
     ((api err)\<lparr>httpCode := code\<rparr>)"

definition ErrCode :: "baseError \<Rightarrow> int \<Rightarrow> baseError" where
  "ErrCode err code = BaseError (errType err) (content err) (flags err) (e_trace err)
     ((api err)\<lparr>errCode := code\<rparr>)"

subsection \<open>Tags\<close>

text \<open>
  Go's two map operations. \<^verbatim>\<open>m[k] = v\<close> panics on a nil map and stores into an
  allocated one; \<^verbatim>\<open>v, ok := m[k]\<close> finds no key in a nil map.
\<close>

definition mapAssign :: "('k \<rightharpoonup> 'v) option \<Rightarrow> 'k \<Rightarrow> 'v \<Rightarrow> panic + ('k \<rightharpoonup> 'v)" where
  "mapAssign m k v = (case m of None \<Rightarrow> Inl NilMapAssignment | Some f \<Rightarrow> Inr (f(k \<mapsto> v)))"

definition mapIndex :: "('k \<rightharpoonup> 'v) option \<Rightarrow> 'k \<Rightarrow> 'v option" where
  "mapIndex m k = (case m of None \<Rightarrow> None | Some f \<Rightarrow> f k)"

text \<open>
  \<^verbatim>\<open>flags := err.flags; flags.tags[tag] = v\<close> copies the struct, not the map, and
  assigns into the map. The returned error carries the updated map. In Go the
  receiver shares that map and sees the new entry as well; the model returns the new
  error only, and no property below reads the receiver after the call.
\<close>

definition Tag :: "baseError \<Rightarrow> string \<Rightarrow> panic + baseError" where
  "Tag err tag =
     (case mapAssign (tags (flags err)) tag VNil of
        Inl p \<Rightarrow> Inl p
      | Inr m \<Rightarrow> Inr (BaseError (errType err) (content err) ((flags err)\<lparr>tags := Some m\<rparr>)
                        (e_trace err) (api err)))"

definition TagStr :: "baseError \<Rightarrow> string \<Rightarrow> string \<Rightarrow> panic + baseError" where
  "TagStr err tag val =
     (case mapAssign (tags (flags err)) tag (VStr val) of
        Inl p \<Rightarrow> Inl p
      | Inr m \<Rightarrow> Inr (BaseError (errType err) (content err) ((flags err)\<lparr>tags := Some m\<rparr>)
                        (e_trace err) (api err)))"

definition TagInt :: "baseError \<Rightarrow> string \<Rightarrow> int \<Rightarrow> panic + baseError" where
  "TagInt err tag val =
     (case mapAssign (tags (flags err)) tag (VInt val) of
        Inl p \<Rightarrow> Inl p
      | Inr m \<Rightarrow> Inr (BaseError (errType err) (content err) ((flags err)\<lparr>tags := Some m\<rparr>)
                        (e_trace err) (api err)))"

definition IsTagged :: "baseError \<Rightarrow> string \<Rightarrow> bool" where
  "IsTagged err tag = (case mapIndex (tags (flags err)) tag of None \<Rightarrow> False | Some _ \<Rightarrow> True)"

text \<open>\<^verbatim>\<open>strVal, ok := val.(string)\<close>: the empty string and false for any other value.\<close>

definition GetTagStr :: "baseError \<Rightarrow> string \<Rightarrow> string \<times> bool" where
  "GetTagStr err tag =
     (case mapIndex (tags (flags err)) tag of
        Some val \<Rightarrow> (case val of VStr strVal \<Rightarrow> (strVal, True) | _ \<Rightarrow> ([], False))
      | None \<Rightarrow> ([], False))"

definition GetTagInt :: "baseError \<Rightarrow> string \<Rightarrow> int \<times> bool" where
  "GetTagInt err tag =
     (case mapIndex (tags (flags err)) tag of
        Some val \<Rightarrow> (case val of VInt intVal \<Rightarrow> (intVal, True) | _ \<Rightarrow> (0, False))
      | None \<Rightarrow> (0, False))"

section \<open>Templates\<close>

definition New :: "sprintf \<Rightarrow> string \<Rightarrow> goValue list \<Rightarrow> Template" where
  "New S msg args =
     \<lparr>t_errType = msg,
      t_content = Content (if length args > 0 then S (S ''%s'' [VStr msg]) args else msg) None,
      t_flags = \<lparr>track = True, trace = False, isSafe = False,
                 tags = None, strTags = None, intTags = None\<rparr>,
      t_api = \<lparr>httpCode = defaultHTTPCode, errCode = defaultErrCode\<rparr>\<rparr>"

definition Template_Track :: "Template \<Rightarrow> Template" where
  "Template_Track t = t\<lparr>t_flags := (t_flags t)\<lparr>track := True\<rparr>\<rparr>"

definition Template_Untrack :: "Template \<Rightarrow> Template" where
  "Template_Untrack t = t\<lparr>t_flags := (t_flags t)\<lparr>track := False, trace := False\<rparr>\<rparr>"

definition Template_Trace :: "Template \<Rightarrow> Template" where
  "Template_Trace t = t\<lparr>t_flags := (t_flags t)\<lparr>track := True, trace := True\<rparr>\<rparr>"

definition Template_NoTrace :: "Template \<Rightarrow> Template" where
  "Template_NoTrace t = t\<lparr>t_flags := (t_flags t)\<lparr>trace := False\<rparr>\<rparr>"

definition Template_Safe :: "Template \<Rightarrow> Template" where
  "Template_Safe t = t\<lparr>t_flags := (t_flags t)\<lparr>isSafe := True\<rparr>\<rparr>"

definition Template_Msg :: "sprintf \<Rightarrow> Template \<Rightarrow> string \<Rightarrow> goValue list \<Rightarrow> Template" where
  "Template_Msg S t msg args =
     t\<lparr>t_content := Content (if length args = 0 then msg else S (S ''%s'' [VStr msg]) args)
                              (cause (t_content t))\<rparr>"

definition Template_Args :: "sprintf \<Rightarrow> Template \<Rightarrow> goValue list \<Rightarrow> Template" where
  "Template_Args S t args =
     t\<lparr>t_content := Content (S (message (t_content t)) args) (cause (t_content t))\<rparr>"

definition Template_API :: "Template \<Rightarrow> int \<Rightarrow> int \<Rightarrow> Template" where
  "Template_API t http err =
     t\<lparr>t_flags := (t_flags t)\<lparr>track := False, trace := False, isSafe := True\<rparr>,
       t_api := (t_api t)\<lparr>httpCode := http, errCode := err\<rparr>\<rparr>"

definition Template_HTTPCode :: "Template \<Rightarrow> int \<Rightarrow> Template" where
  "Template_HTTPCode t code = t\<lparr>t_api := (t_api t)\<lparr>httpCode := code\<rparr>\<rparr>"

definition Template_ErrCode :: "Template \<Rightarrow> int \<Rightarrow> Template" where
  "Template_ErrCode t code = t\<lparr>t_api := (t_api t)\<lparr>errCode := code\<rparr>\<rparr>"

subsection \<open>Materialization: id and stack trace\<close>

text \<open>
  \<^verbatim>\<open>h.Sum(nil)\<close>: the twenty bytes of a SHA-1 digest, most significant first.
\<close>

definition sha1_Sum :: "160 word \<Rightarrow> 8 word list" where
  "sha1_Sum h = map (\<lambda>i. ucast (drop_bit (8 * (19 - i)) h)) [0..<20]"

text \<open>\<^verbatim>\<open>fmt.Sprintf("%x", bytes)\<close>: two lower-case hexadecimal digits for each byte.\<close>

definition hexDigit :: "nat \<Rightarrow> char" where
  "hexDigit n = ''0123456789abcdef'' ! (n mod 16)"

definition hexBytes :: "8 word list \<Rightarrow> string" where
  "hexBytes bs = concat (map (\<lambda>b. [hexDigit (unat b div 16), hexDigit (unat b mod 16)]) bs)"

text \<open>
  \<^verbatim>\<open>generateID\<close> hashes \<^verbatim>\<open>fmt.Sprintf("%v|%v|%v", errType, message, time.Now())\<close>,
  the three texts joined by bars, and prints the first eight bytes of the digest.
\<close>

definition generateID :: "runtime \<Rightarrow> ErrorType \<Rightarrow> string \<Rightarrow> string" where
  "generateID rt ty msg =
     hexBytes (take 8 (sha1_Sum (sha1 rt (ty @ ''|'' @ msg @ ''|'' @ now rt))))"

text \<open>\<^verbatim>\<open>strings.Split(s, "\n")\<close>: the pieces between line feeds, at least one.\<close>

primrec splitLines :: "string \<Rightarrow> string list" where
  "splitLines [] = [[]]"
| "splitLines (c # cs) =
     (if c = CHR 0x0A then [] # splitLines cs
      else (case splitLines cs of [] \<Rightarrow> [[c]] | l # ls \<Rightarrow> (c # l) # ls))"

text \<open>
  \<^verbatim>\<open>getStackTrace(depth)\<close> keeps the first line of the dump and the lines from index
  \<open>1 + 2 * (depth + 2)\<close> on, each after a line feed. The depth is a \<open>nat\<close>: the
  package passes 2 (from \<^verbatim>\<open>Make\<close>) and 3 (from \<^verbatim>\<open>wrap\<close>), and
  \<^verbatim>\<open>MakeTraced\<close> is modelled for the depths from 0 on.
\<close>

definition getStackTrace :: "runtime \<Rightarrow> nat \<Rightarrow> string" where
  "getStackTrace rt depth =
     (case splitLines (stack rt) of
        [] \<Rightarrow> []
      | l0 # rest \<Rightarrow>
          l0 @ concat (map (\<lambda>l. [CHR 0x0A] @ l) (drop (1 + 2 * (depth + 2)) (l0 # rest))))"

text \<open>
  \<^verbatim>\<open>func (t Template) make(depth int) Error\<close>, named \<open>make_error\<close> here
  (every record has a \<open>make\<close> of its own). No flag is consulted.
\<close>

definition make_error :: "runtime \<Rightarrow> Template \<Rightarrow> nat \<Rightarrow> baseError" where
  "make_error rt t depth =
     BaseError (t_errType t) (t_content t) (t_flags t)
       \<lparr>trace_id = generateID rt (t_errType t) (message (t_content t)),
        stackTrace = getStackTrace rt (depth + 1)\<rparr>
       (t_api t)"

definition Make :: "runtime \<Rightarrow> Template \<Rightarrow> baseError" where
  "Make rt t = make_error rt t 1"

definition MakeTraced :: "runtime \<Rightarrow> Template \<Rightarrow> nat \<Rightarrow> baseError" where
  "MakeTraced rt t depth = make_error rt t (depth + 1)"

definition GenericError :: "sprintf \<Rightarrow> Template" where
  "GenericError S = Template_Trace (New S ''An error occured'' [])"

section \<open>Wrapping and comparison\<close>

fun getErrorType :: "goError \<Rightarrow> ErrorType" where
  "getErrorType (Lib e) = GetType e"
| "getErrorType (Foreign tn txt) = tn"

definition areEqual :: "ErrorType \<Rightarrow> ErrorType \<Rightarrow> bool" where
  "areEqual type1 type2 = (type1 = type2)"

fun wrap :: "sprintf \<Rightarrow> runtime \<Rightarrow> goError option \<Rightarrow> bool \<Rightarrow> nat \<Rightarrow> baseError option" where
  "wrap S rt None withType depth = None"
| "wrap S rt (Some (Lib e)) withType depth = Some e"
| "wrap S rt (Some (Foreign tn txt)) withType depth =
     (let errType = getErrorType (Foreign tn txt);
          msg = txt;
          msg = (if withType
                 then (if msg \<noteq> [] then ''['' @ errType @ ''] '' @ msg else errType)
                 else msg)
      in Some (make_error rt (Template_Trace (Template_Msg S (New S errType []) msg [])) (depth + 1)))"

definition Wrap :: "sprintf \<Rightarrow> runtime \<Rightarrow> goError option \<Rightarrow> baseError option" where
  "Wrap S rt baseErr = wrap S rt baseErr False 1"

definition WrapT :: "sprintf \<Rightarrow> runtime \<Rightarrow> goError option \<Rightarrow> baseError option" where
  "WrapT S rt baseErr = wrap S rt baseErr True 1"

subsection \<open>Mutators that attach a cause\<close>

definition Cause :: "sprintf \<Rightarrow> runtime \<Rightarrow> baseError \<Rightarrow> goError option \<Rightarrow> baseError" where
  "Cause S rt err c =
     BaseError (errType err) (Content (message (content err)) (Wrap S rt c))
       (flags err) (e_trace err) (api err)"

definition StrCause ::
  "sprintf \<Rightarrow> runtime \<Rightarrow> baseError \<Rightarrow> string \<Rightarrow> goValue list \<Rightarrow> baseError" where
  "StrCause S rt err str args =
     BaseError (errType err)
       (Content (message (content err))
          (Some (Make rt (Template_Untrack (Template_Msg S (GenericError S) str args)))))
       (flags err) (e_trace err) (api err)"

section \<open>Output\<close>

text \<open>
  \<^verbatim>\<open>func (err baseError) string(onlySafe bool) string\<close>. The calls
  \<^verbatim>\<open>cause.SafeString()\<close> and \<^verbatim>\<open>cause.String()\<close> are \<^verbatim>\<open>cause.string(true)\<close> and
  \<^verbatim>\<open>cause.string(false)\<close>, that is \<^verbatim>\<open>cause.string(onlySafe)\<close>.
\<close>

fun string_e :: "bool \<Rightarrow> baseError \<Rightarrow> string" where
  "string_e onlySafe (BaseError ty (Content msg c) fl tr ap) =
     (if \<not> onlySafe \<or> isSafe fl then
        (let prefix = (if msg = [] then ty else msg);
             suffix = (case c of
                         None \<Rightarrow> []
                       | Some ca \<Rightarrow>
                           (let suffix = string_e onlySafe ca
                            in if length suffix > 0 then '': '' @ suffix else suffix))
         in prefix @ suffix)
      else [])"

definition String :: "baseError \<Rightarrow> string" where
  "String err = string_e False err"

definition SafeString :: "baseError \<Rightarrow> string" where
  "SafeString err = string_e True err"

definition Error :: "baseError \<Rightarrow> string" where
  "Error err = String err"

subsection \<open>Log\<close>

text \<open>
  \<^verbatim>\<open>Logger\<close> is a variable of the package; a call \<^verbatim>\<open>Logger(format, args...)\<close> is
  recorded as the pair of its format and its arguments, and a log operation returns
  the calls it makes, in order.
\<close>

type_synonym logCall = "string \<times> string list"

fun TypedError_GetType :: "typedError \<Rightarrow> ErrorType" where
  "TypedError_GetType (OfTemplate t) = Template_GetType t"
| "TypedError_GetType (OfError e) = GetType e"

text \<open>
  The loop over \<^verbatim>\<open>except\<close> returns from \<^verbatim>\<open>toLog\<close> at the first entry of the
  receiver's type; after the loop come the two optional calls.
\<close>

fun toLog :: "baseError \<Rightarrow> typedError list \<Rightarrow> logCall list" where
  "toLog err [] =
     (if length (trace_id (e_trace err)) > 0
      then (if \<not> track (flags err)
            then [(''[ERR] %v'', [Error err])]
            else [(''[ERR %v] %v'', [trace_id (e_trace err), Error err])])
      else []) @
     (if trace (flags err) \<and> length (stackTrace (e_trace err)) > 0
      then (if \<not> track (flags err)
            then [(''[STACK] %v'', [stackTrace (e_trace err)])]
            else [(''[STACK %v] %v'', [trace_id (e_trace err), stackTrace (e_trace err)])])
      else [])"
| "toLog err (exceptErr # except) =
     (if areEqual (errType err) (TypedError_GetType exceptErr) then []
      else toLog err except)"

definition ToLog :: "baseError \<Rightarrow> typedError list \<Rightarrow> logCall list" where
  "ToLog err except = (if track (flags err) then toLog err except else [])"

definition ForceLog :: "baseError \<Rightarrow> typedError list \<Rightarrow> logCall list" where
  "ForceLog err except = toLog err except"

subsection \<open>API response\<close>

record APIError =
  ResponseCode :: int
  ErrorCode :: int
  Message :: string

text \<open>
  \<^verbatim>\<open>func (err baseError) API() APIError\<close>; the variable \<^verbatim>\<open>PrintUnsafeErrors\<close> of the
  package is the first argument.
\<close>

definition baseError_API :: "bool \<Rightarrow> baseError \<Rightarrow> APIError" where
  "baseError_API PrintUnsafeErrors err =
     (let suffix = (if track (flags err) \<and> length (trace_id (e_trace err)) > 0
                    then '' [ID '' @ trace_id (e_trace err) @ '']'' else [])
      in if PrintUnsafeErrors
         then \<lparr>ResponseCode = httpCode (api err), ErrorCode = errCode (api err),
               Message = Error err @ suffix\<rparr>
         else if isSafe (flags err)
         then \<lparr>ResponseCode = httpCode (api err), ErrorCode = errCode (api err),
               Message = SafeString err @ suffix\<rparr>
         else \<lparr>ResponseCode = httpCode (api err), ErrorCode = errCode (api err),
               Message = ''An error occured'' @ suffix\<rparr>)"

section \<open>Errors that come from \<^verbatim>\<open>New\<close>\<close>

text \<open>
  The templates built by \<^verbatim>\<open>New\<close> and the template mutators, and the errors
  obtained from them by \<^verbatim>\<open>make\<close> (that is by \<^verbatim>\<open>Make\<close>, \<^verbatim>\<open>MakeTraced\<close> and
  \<^verbatim>\<open>Wrap\<close> of a foreign error) and the error mutators.
\<close>

inductive templateFromNew :: "Template \<Rightarrow> bool" where
  tNew: "templateFromNew (New S msg args)"
| tTrack: "templateFromNew t \<Longrightarrow> templateFromNew (Template_Track t)"
| tUntrack: "templateFromNew t \<Longrightarrow> templateFromNew (Template_Untrack t)"
| tTrace: "templateFromNew t \<Longrightarrow> templateFromNew (Template_Trace t)"
| tNoTrace: "templateFromNew t \<Longrightarrow> templateFromNew (Template_NoTrace t)"
| tSafe: "templateFromNew t \<Longrightarrow> templateFromNew (Template_Safe t)"
| tMsg: "templateFromNew t \<Longrightarrow> templateFromNew (Template_Msg S t msg args)"
| tArgs: "templateFromNew t \<Longrightarrow> templateFromNew (Template_Args S t args)"
| tAPI: "templateFromNew t \<Longrightarrow> templateFromNew (Template_API t http err)"
| tHTTPCode: "templateFromNew t \<Longrightarrow> templateFromNew (Template_HTTPCode t code)"
| tErrCode: "templateFromNew t \<Longrightarrow> templateFromNew (Template_ErrCode t code)"

inductive errorFromNew :: "baseError \<Rightarrow> bool" where
  eMake: "templateFromNew t \<Longrightarrow> errorFromNew (make_error rt t depth)"
| eUntrack: "errorFromNew e \<Longrightarrow> errorFromNew (Untrack e)"
| eNoTrace: "errorFromNew e \<Longrightarrow> errorFromNew (NoTrace e)"
| eSafe: "errorFromNew e \<Longrightarrow> errorFromNew (Safe e)"
| eMsg: "errorFromNew e \<Longrightarrow> errorFromNew (Msg S e msg args)"
| eArgs: "errorFromNew e \<Longrightarrow> errorFromNew (Args S e args)"
| eCause: "errorFromNew e \<Longrightarrow> errorFromNew (Cause S rt e c)"
| eStrCause: "errorFromNew e \<Longrightarrow> errorFromNew (StrCause S rt e str args)"
| eExpand: "errorFromNew e \<Longrightarrow> errorFromNew (Expand S e msg args)"
| eExpandSafe: "errorFromNew e \<Longrightarrow> errorFromNew (ExpandSafe S e msg args)"
| eHTTPCode: "errorFromNew e \<Longrightarrow> errorFromNew (HTTPCode e code)"
| eErrCode: "errorFromNew e \<Longrightarrow> errorFromNew (ErrCode e code)"
| eTag: "errorFromNew e \<Longrightarrow> Tag e tag = Inr e' \<Longrightarrow> errorFromNew e'"
| eTagStr: "errorFromNew e \<Longrightarrow> TagStr e tag val = Inr e' \<Longrightarrow> errorFromNew e'"
| eTagInt: "errorFromNew e \<Longrightarrow> TagInt e tag n = Inr e' \<Longrightarrow> errorFromNew e'"

section \<open>Sample inputs\<close>

text \<open>
  Concrete inputs for the witnesses: \<^verbatim>\<open>fmt.Sprintf\<close> as it acts on a format
  without verbs, a runtime with a fixed clock, digest and stack dump, and the error
  \<^verbatim>\<open>New("TestError").Msg("a safe message").Make().Untrack().Safe().Cause(fmt.Errorf("inner secret"))\<close>.
\<close>

definition sampleSprintf :: sprintf where
  "sampleSprintf format args = format"

definition sampleRuntime :: runtime where
  "sampleRuntime = \<lparr>now = ''2026-11-01 12:00:00'', sha1 = (\<lambda>s. 0),
     stack = ''goroutine 1 [running]:''\<rparr>"

definition sampleTemplate :: Template where
  "sampleTemplate = New sampleSprintf ''TestError'' []"

definition sampleError :: baseError where
  "sampleError =
     Cause sampleSprintf sampleRuntime
       (Safe (Untrack (Make sampleRuntime
          (Template_Msg sampleSprintf sampleTemplate ''a safe message'' []))))
       (Some (Foreign ''*errors.errorString'' ''inner secret''))"

section \<open>Properties\<close>

subsection \<open>The id and the stack trace\<close>

lemma length_hexBytes: "length (hexBytes bs) = 2 * length bs"
  by (induction bs) (simp_all add: hexBytes_def)

lemma length_sha1_Sum: "length (sha1_Sum h) = 20"
  by (simp add: sha1_Sum_def)

lemma length_generateID: "length (generateID rt ty msg) = 16"
  by (simp add: generateID_def length_hexBytes length_sha1_Sum)

text \<open>Every character of an id is a lower-case hexadecimal digit.\<close>

lemma hexDigit_in: "hexDigit n \<in> set ''0123456789abcdef''"
proof -
  have "n mod 16 < length ''0123456789abcdef''" by simp
  then show ?thesis unfolding hexDigit_def by (rule nth_mem)
qed

lemma set_hexBytes: "set (hexBytes bs) \<subseteq> set ''0123456789abcdef''"
  using hexDigit_in by (auto simp add: hexBytes_def)

lemma set_generateID: "set (generateID rt ty msg) \<subseteq> set ''0123456789abcdef''"
  unfolding generateID_def by (rule set_hexBytes)

lemma splitLines_not_Nil: "splitLines s \<noteq> []"
  by (induction s) (simp_all split: list.splits)

text \<open>A dump that starts with the goroutine header gives a stack trace that is not empty.\<close>

lemma getStackTrace_not_Nil:
  assumes "take 10 (stack rt) = ''goroutine ''"
  shows "getStackTrace rt depth \<noteq> []"
proof -
  obtain cs where s: "stack rt = CHR ''g'' # cs"
    using assms by (cases "stack rt") simp_all
  then show ?thesis
    using splitLines_not_Nil [of cs]
    by (cases "splitLines cs") (simp_all add: getStackTrace_def)
qed

lemma Make_trace:
  "e_trace (Make rt t) =
     \<lparr>trace_id = generateID rt (t_errType t) (message (t_content t)),
      stackTrace = getStackTrace rt 2\<rparr>"
  by (simp add: Make_def make_error_def numeral_2_eq_2)

lemma Make_fields:
  "errType (Make rt t) = t_errType t"
  "content (Make rt t) = t_content t"
  "flags (Make rt t) = t_flags t"
  "api (Make rt t) = t_api t"
  by (simp_all add: Make_def make_error_def)

lemma length_GetID_Make: "length (GetID (Make rt t)) = 16"
  by (simp add: GetID_def Make_trace length_generateID)

text \<open>The trace that \<^verbatim>\<open>Make\<close> stores is the same whatever the flags of the template.\<close>

lemma Make_trace_ignores_flags: "e_trace (Make rt (t\<lparr>t_flags := fl\<rparr>)) = e_trace (Make rt t)"
  by (simp add: Make_trace)

lemma Wrap_Foreign:
  "Wrap S rt (Some (Foreign tn txt)) =
     Some (BaseError tn (Content txt None)
       \<lparr>track = True, trace = True, isSafe = False, tags = None, strTags = None, intTags = None\<rparr>
       \<lparr>trace_id = generateID rt tn txt, stackTrace = getStackTrace rt 3\<rparr>
       \<lparr>httpCode = 500, errCode = 0\<rparr>)"
  by (simp add: Wrap_def Let_def make_error_def Template_Trace_def Template_Msg_def New_def
      defaultHTTPCode_def defaultErrCode_def numeral_3_eq_3)

subsection \<open>The sample error\<close>

lemma sampleError_eq:
  "sampleError =
     BaseError ''TestError''
       (Content ''a safe message''
          (Some (BaseError ''*errors.errorString'' (Content ''inner secret'' None)
             \<lparr>track = True, trace = True, isSafe = False,
               tags = None, strTags = None, intTags = None\<rparr>
             \<lparr>trace_id = generateID sampleRuntime ''*errors.errorString'' ''inner secret'',
               stackTrace = getStackTrace sampleRuntime 3\<rparr>
             \<lparr>httpCode = 500, errCode = 0\<rparr>)))
       \<lparr>track = False, trace = False, isSafe = True, tags = None, strTags = None, intTags = None\<rparr>
       \<lparr>trace_id = generateID sampleRuntime ''TestError'' ''a safe message'',
         stackTrace = getStackTrace sampleRuntime 2\<rparr>
       \<lparr>httpCode = 500, errCode = 0\<rparr>"
  by (simp add: sampleError_def sampleTemplate_def Cause_def Safe_def Untrack_def Make_trace
      Make_fields Template_Msg_def New_def Wrap_Foreign defaultHTTPCode_def defaultErrCode_def)

lemma sampleError_GetID: "length (GetID sampleError) = 16"
  by (simp add: sampleError_eq GetID_def length_generateID)

subsection \<open>Mutators and the trace\<close>

lemmas template_mutator_defs =
  Template_Track_def Template_Untrack_def Template_Trace_def Template_NoTrace_def
  Template_Safe_def Template_Msg_def Template_Args_def Template_API_def
  Template_HTTPCode_def Template_ErrCode_def

lemmas error_mutator_defs =
  Untrack_def NoTrace_def Safe_def Msg_def Args_def Cause_def StrCause_def
  Expand_def ExpandSafe_def HTTPCode_def ErrCode_def

text \<open>
  The eleven mutators that always return copy the trace record forward; the three tag
  mutators do so whenever they return.
\<close>

lemma mutators_keep_trace:
  "e_trace (Untrack e) = e_trace e"
  "e_trace (NoTrace e) = e_trace e"
  "e_trace (Safe e) = e_trace e"
  "e_trace (Msg S e msg args) = e_trace e"
  "e_trace (Args S e args) = e_trace e"
  "e_trace (Cause S rt e c) = e_trace e"
  "e_trace (StrCause S rt e str args) = e_trace e"
  "e_trace (Expand S e msg args) = e_trace e"
  "e_trace (ExpandSafe S e msg args) = e_trace e"
  "e_trace (HTTPCode e code) = e_trace e"
  "e_trace (ErrCode e code) = e_trace e"
  by (simp_all add: error_mutator_defs)

lemma tag_keeps_trace:
  "Tag e tag = Inr e' \<Longrightarrow> e_trace e' = e_trace e"
  "TagStr e tag val = Inr e' \<Longrightarrow> e_trace e' = e_trace e"
  "TagInt e tag n = Inr e' \<Longrightarrow> e_trace e' = e_trace e"
  by (auto simp add: Tag_def TagStr_def TagInt_def split: sum.splits)

lemma same_trace:
  assumes "e_trace e' = e_trace e"
  shows "GetID e' = GetID e" and "GetStackTrace e' = GetStackTrace e"
  using assms by (simp_all add: GetID_def GetStackTrace_def)

lemma tag_nil_panics:
  assumes "tags (flags e) = None"
  shows "Tag e tag = Inl NilMapAssignment"
    and "TagStr e tag val = Inl NilMapAssignment"
    and "TagInt e tag n = Inl NilMapAssignment"
  using assms by (simp_all add: Tag_def TagStr_def TagInt_def mapAssign_def)

text \<open>
  C1. Every mutator of an error with an id returns an error with the same id and stack
  trace. The code fails the claim at \<^verbatim>\<open>New("T").Make()\<close>: the error has an id, and
  \<^verbatim>\<open>Tag\<close>, \<^verbatim>\<open>TagStr\<close> and \<^verbatim>\<open>TagInt\<close> panic on it instead of returning an error.
\<close>

theorem Tag_panics_after_Make:
  "length (GetID (Make sampleRuntime (New sampleSprintf ''T'' []))) = 16 \<and>
   Tag (Make sampleRuntime (New sampleSprintf ''T'' [])) ''x'' = Inl NilMapAssignment \<and>
   TagStr (Make sampleRuntime (New sampleSprintf ''T'' [])) ''x'' ''v'' = Inl NilMapAssignment \<and>
   TagInt (Make sampleRuntime (New sampleSprintf ''T'' [])) ''x'' 1 = Inl NilMapAssignment"
proof -
  have "tags (flags (Make sampleRuntime (New sampleSprintf ''T'' []))) = None"
    by (simp add: Make_fields New_def)
  then show ?thesis
    by (simp add: tag_nil_panics length_GetID_Make)
qed

text \<open>
  C2. \<^verbatim>\<open>Make\<close> on a template whose track flag is false returns an error with an empty
  id and an empty stack trace. The code fails the claim at
  \<^verbatim>\<open>New("T").Untrack().Make()\<close>: track and trace are false, and the error has a
  sixteen-digit id and a stack trace.
\<close>

theorem Make_of_untracked_template:
  "track (flags (Make sampleRuntime (Template_Untrack (New sampleSprintf ''T'' [])))) = False \<and>
   trace (flags (Make sampleRuntime (Template_Untrack (New sampleSprintf ''T'' [])))) = False \<and>
   length (GetID (Make sampleRuntime (Template_Untrack (New sampleSprintf ''T'' [])))) = 16 \<and>
   GetStackTrace (Make sampleRuntime (Template_Untrack (New sampleSprintf ''T'' [])))
     = ''goroutine 1 [running]:''"
proof (intro conjI)
  show "track (flags (Make sampleRuntime (Template_Untrack (New sampleSprintf ''T'' [])))) = False"
    by (simp add: Make_fields Template_Untrack_def)
  show "trace (flags (Make sampleRuntime (Template_Untrack (New sampleSprintf ''T'' [])))) = False"
    by (simp add: Make_fields Template_Untrack_def)
  show "length (GetID (Make sampleRuntime (Template_Untrack (New sampleSprintf ''T'' [])))) = 16"
    by (rule length_GetID_Make)
  show "GetStackTrace (Make sampleRuntime (Template_Untrack (New sampleSprintf ''T'' [])))
     = ''goroutine 1 [running]:''"
    by (simp add: GetStackTrace_def Make_trace getStackTrace_def sampleRuntime_def)
qed

text \<open>
  C3. \<^verbatim>\<open>Msg\<close> on an error always yields an error whose safe flag is false, whatever the
  flags of the receiver; \<^verbatim>\<open>Args\<close> yields an error whose safe flag is the receiver's.
\<close>

theorem Msg_clears_Args_keeps_isSafe:
  "isSafe (flags (Msg S err msg args)) = False \<and>
   isSafe (flags (Args S err args)) = isSafe (flags err)"
  by (simp add: Msg_def Args_def)

subsection \<open>Wrap\<close>

text \<open>
  C4. \<^verbatim>\<open>Wrap(nil)\<close> is nil, \<^verbatim>\<open>Wrap\<close> of an \<^verbatim>\<open>Error\<close> of the package is that error,
  and wrapping the result of \<^verbatim>\<open>Wrap\<close> once more, at any later time, returns the
  identical value.
\<close>

theorem Wrap_idempotent:
  "Wrap S rt None = None \<and>
   Wrap S rt (Some (Lib x)) = Some x \<and>
   Wrap S' rt' (map_option Lib (Wrap S rt b)) = Wrap S rt b"
proof (intro conjI)
  show "Wrap S rt None = None" by (simp add: Wrap_def)
  show "Wrap S rt (Some (Lib x)) = Some x" by (simp add: Wrap_def)
  show "Wrap S' rt' (map_option Lib (Wrap S rt b)) = Wrap S rt b"
  proof (cases b)
    case None
    then show ?thesis by (simp add: Wrap_def)
  next
    case (Some g)
    then show ?thesis by (cases g) (simp_all add: Wrap_def Let_def)
  qed
qed

text \<open>
  C5, as claimed: \<^verbatim>\<open>Wrap\<close> of a foreign error returns an error with tracking
  disabled. It fails at \<^verbatim>\<open>Wrap(fmt.Errorf("boom"))\<close>, whose track flag is true.
\<close>

theorem Wrap_foreign_tracked_counterexample:
  "map_option (\<lambda>e. track (flags e))
     (Wrap sampleSprintf sampleRuntime (Some (Foreign ''*errors.errorString'' ''boom'')))
   = Some True"
  by (simp add: Wrap_Foreign)

text \<open>
  C5, amended: \<^verbatim>\<open>Wrap\<close> of a foreign error returns an error whose type is the name
  of the concrete type, whose message is the text of the foreign error, without
  cause, with tracking and stack-trace capture both enabled and the safe flag off,
  with an id of sixteen hexadecimal digits and the stack trace taken at depth 3,
  which is not empty when the dump starts with the goroutine header.
\<close>

theorem Wrap_foreign_materialized:
  "\<exists>e. Wrap S rt (Some (Foreign tn txt)) = Some e \<and>
       GetType e = tn \<and> message (content e) = txt \<and> cause (content e) = None \<and>
       track (flags e) \<and> trace (flags e) \<and> \<not> isSafe (flags e) \<and>
       length (GetID e) = 16 \<and> set (GetID e) \<subseteq> set ''0123456789abcdef'' \<and>
       GetStackTrace e = getStackTrace rt 3 \<and>
       (take 10 (stack rt) = ''goroutine '' \<longrightarrow> GetStackTrace e \<noteq> [])"
  using set_generateID [of rt tn "txt"]
  by (simp add: Wrap_Foreign GetType_def GetID_def GetStackTrace_def length_generateID
      getStackTrace_not_Nil)

theorem Wrap_foreign_materialized_witness:
  "take 10 (stack sampleRuntime) = ''goroutine '' \<and>
   (\<exists>e. Wrap sampleSprintf sampleRuntime (Some (Foreign ''*errors.errorString'' ''boom'')) = Some e \<and>
       GetType e = ''*errors.errorString'' \<and> message (content e) = ''boom'' \<and>
       track (flags e) \<and> trace (flags e) \<and> length (GetID e) = 16 \<and>
       set (GetID e) \<subseteq> set ''0123456789abcdef'' \<and> GetStackTrace e \<noteq> [])"
proof -
  have h: "take 10 (stack sampleRuntime) = ''goroutine ''"
    by (simp add: sampleRuntime_def)
  show ?thesis
    using h Wrap_foreign_materialized
      [of sampleSprintf sampleRuntime "''*errors.errorString''" "''boom''"]
    by auto
qed

subsection \<open>Rendering\<close>

lemma string_e_unfold:
  "string_e onlySafe err =
     (if \<not> onlySafe \<or> isSafe (flags err)
      then (if message (content err) = [] then errType err else message (content err)) @
           (case cause (content err) of
              None \<Rightarrow> []
            | Some c \<Rightarrow> if string_e onlySafe c = [] then [] else '': '' @ string_e onlySafe c)
      else [])"
proof (cases err)
  case (BaseError ty co fl tr ap)
  then show ?thesis
    by (cases co) (simp add: Let_def split: option.split)
qed

lemma Error_sampleError: "Error sampleError = ''a safe message: inner secret''"
  by (simp add: sampleError_eq Error_def String_def)

text \<open>
  C6. \<^verbatim>\<open>SafeString\<close> is empty when the safe flag of the error is false; otherwise it
  is the message of the error (its type when the message is empty), followed by a
  colon, a space and the \<^verbatim>\<open>SafeString\<close> of the cause when that is not empty. A safe
  error with an unsafe cause renders its own text only. \<^verbatim>\<open>String\<close> and \<^verbatim>\<open>Error\<close>
  render the own text and that of every cause, whatever the flags.
\<close>

theorem SafeString_and_String:
  "SafeString err =
     (if isSafe (flags err)
      then (if message (content err) = [] then errType err else message (content err)) @
           (case cause (content err) of
              None \<Rightarrow> []
            | Some c \<Rightarrow> if SafeString c = [] then [] else '': '' @ SafeString c)
      else []) \<and>
   (isSafe (flags err) \<and> cause (content err) = Some c \<and> \<not> isSafe (flags c) \<longrightarrow>
      SafeString err = (if message (content err) = [] then errType err else message (content err))) \<and>
   String err =
     (if message (content err) = [] then errType err else message (content err)) @
     (case cause (content err) of
        None \<Rightarrow> []
      | Some c \<Rightarrow> if String c = [] then [] else '': '' @ String c) \<and>
   Error err = String err"
proof -
  have safe: "SafeString err =
     (if isSafe (flags err)
      then (if message (content err) = [] then errType err else message (content err)) @
           (case cause (content err) of
              None \<Rightarrow> []
            | Some c \<Rightarrow> if SafeString c = [] then [] else '': '' @ SafeString c)
      else [])"
    unfolding SafeString_def by (subst string_e_unfold) simp
  have unsafe_cause: "SafeString c = []" if "\<not> isSafe (flags c)" for c
    using that unfolding SafeString_def by (subst string_e_unfold) simp
  have full: "String err =
     (if message (content err) = [] then errType err else message (content err)) @
     (case cause (content err) of
        None \<Rightarrow> []
      | Some c \<Rightarrow> if String c = [] then [] else '': '' @ String c)"
    unfolding String_def by (subst string_e_unfold) simp
  show ?thesis
    using safe full unsafe_cause [of c] by (simp add: Error_def)
qed

theorem SafeString_and_String_witness:
  "isSafe (flags sampleError) \<and>
   map_option (\<lambda>c. isSafe (flags c)) (cause (content sampleError)) = Some False \<and>
   SafeString sampleError = ''a safe message'' \<and>
   Error sampleError = ''a safe message: inner secret''"
proof -
  obtain c where h: "isSafe (flags sampleError) \<and> cause (content sampleError) = Some c \<and>
      \<not> isSafe (flags c)"
    by (simp add: sampleError_eq)
  note t = SafeString_and_String [of sampleError c]
  have s: "SafeString sampleError = ''a safe message''"
    using t [THEN conjunct2, THEN conjunct1] h by (simp add: sampleError_eq)
  have e: "Error sampleError = String sampleError"
    using t by blast
  show ?thesis
    using h s e Error_sampleError by auto
qed

subsection \<open>New\<close>

text \<open>
  C7, as claimed: \<^verbatim>\<open>New(t)\<close> yields a template with an empty message. It fails at
  \<^verbatim>\<open>New("T")\<close>, whose message is "T".
\<close>

theorem New_message_counterexample:
  "message (t_content (New sampleSprintf ''T'' [])) = ''T''"
  by (simp add: New_def)

text \<open>
  C7, amended: \<^verbatim>\<open>New(t)\<close>, without format arguments, yields the template whose type
  and message are both \<open>t\<close>, without cause, with the flags track = true,
  trace = false, isSafe = false, with nil tag maps and the API data (500, 0); a
  template has no trace, and the error made from it renders as \<open>t\<close>.
\<close>

theorem New_template:
  "New S t [] =
     \<lparr>t_errType = t, t_content = Content t None,
      t_flags = \<lparr>track = True, trace = False, isSafe = False,
                 tags = None, strTags = None, intTags = None\<rparr>,
      t_api = \<lparr>httpCode = 500, errCode = 0\<rparr>\<rparr> \<and>
   Error (Make rt (New S t [])) = t"
  by (simp add: New_def defaultHTTPCode_def defaultErrCode_def Error_def String_def Make_def
      make_error_def)

subsection \<open>Log\<close>

lemma toLog_excluded:
  "errType err \<in> TypedError_GetType ` set except \<Longrightarrow> toLog err except = []"
  by (induction except) (auto simp add: areEqual_def)

lemma toLog_not_excluded:
  "errType err \<notin> TypedError_GetType ` set except \<Longrightarrow> toLog err except = toLog err []"
  by (induction except) (auto simp add: areEqual_def)

lemma length_toLog_track:
  "length (toLog (BaseError ty co (fl\<lparr>track := b\<rparr>) tr ap) except)
   = length (toLog (BaseError ty co fl tr ap) except)"
  by (induction except) simp_all

text \<open>
  C8. \<^verbatim>\<open>ToLog\<close> makes no call of the logger when the track flag is false, and the
  calls of \<^verbatim>\<open>ForceLog\<close> when it is true. \<^verbatim>\<open>ForceLog\<close> makes as many calls whatever
  the track flag is, and at least one when the error has an id and is not excluded.
  When the exclusion list holds a template or an error of the receiver's type,
  neither operation calls the logger.
\<close>

theorem log_gates:
  "(\<not> track (flags err) \<longrightarrow> ToLog err except = []) \<and>
   (track (flags err) \<longrightarrow> ToLog err except = ForceLog err except) \<and>
   length (ForceLog (BaseError ty co (fl\<lparr>track := b\<rparr>) tr ap) except)
     = length (ForceLog (BaseError ty co fl tr ap) except) \<and>
   (GetID err \<noteq> [] \<and> errType err \<notin> TypedError_GetType ` set except \<longrightarrow>
      ForceLog err except \<noteq> []) \<and>
   (errType err \<in> TypedError_GetType ` set except \<longrightarrow>
      ToLog err except = [] \<and> ForceLog err except = [])"
proof (intro conjI impI)
  show "ToLog err except = []" if "\<not> track (flags err)"
    using that by (simp add: ToLog_def)
  show "ToLog err except = ForceLog err except" if "track (flags err)"
    using that by (simp add: ToLog_def ForceLog_def)
  show "length (ForceLog (BaseError ty co (fl\<lparr>track := b\<rparr>) tr ap) except)
     = length (ForceLog (BaseError ty co fl tr ap) except)"
    by (simp add: ForceLog_def length_toLog_track)
  show "ForceLog err except \<noteq> []"
    if "GetID err \<noteq> [] \<and> errType err \<notin> TypedError_GetType ` set except"
    using that by (simp add: ForceLog_def toLog_not_excluded GetID_def)
  show "ToLog err except = []" if "errType err \<in> TypedError_GetType ` set except"
    using that by (simp add: ToLog_def toLog_excluded)
  show "ForceLog err except = []" if "errType err \<in> TypedError_GetType ` set except"
    using that by (simp add: ForceLog_def toLog_excluded)
qed

theorem log_gates_witness:
  "\<not> track (flags sampleError) \<and> ToLog sampleError [] = [] \<and>
   GetID sampleError \<noteq> [] \<and> errType sampleError \<notin> TypedError_GetType ` set [] \<and>
   ForceLog sampleError [] = [(''[ERR] %v'', [''a safe message: inner secret''])] \<and>
   errType sampleError \<in> TypedError_GetType ` set [OfTemplate sampleTemplate] \<and>
   ToLog sampleError [OfTemplate sampleTemplate] = [] \<and>
   ForceLog sampleError [OfTemplate sampleTemplate] = [] \<and>
   track (flags (Make sampleRuntime sampleTemplate)) \<and>
   ToLog (Make sampleRuntime sampleTemplate) [] = ForceLog (Make sampleRuntime sampleTemplate) []"
proof -
  have h1: "\<not> track (flags sampleError)"
    by (simp add: sampleError_eq)
  have h2: "GetID sampleError \<noteq> [] \<and> errType sampleError \<notin> TypedError_GetType ` set []"
    using sampleError_GetID by auto
  have h3: "errType sampleError \<in> TypedError_GetType ` set [OfTemplate sampleTemplate]"
    by (simp add: sampleError_eq Template_GetType_def sampleTemplate_def New_def)
  have h4: "track (flags (Make sampleRuntime sampleTemplate))"
    by (simp add: Make_fields sampleTemplate_def New_def)
  have f: "ForceLog sampleError [] = [(''[ERR] %v'', [''a safe message: inner secret''])]"
    using h1 h2 Error_sampleError
    by (simp add: ForceLog_def GetID_def) (simp add: sampleError_eq)
  show ?thesis
    using h1 h2 h3 h4 f
      log_gates [of sampleError "[]"]
      log_gates [of sampleError "[OfTemplate sampleTemplate]"]
      log_gates [of "Make sampleRuntime sampleTemplate" "[]"]
    by simp
qed

subsection \<open>Tags\<close>

lemma templateFromNew_tags: "templateFromNew t \<Longrightarrow> tags (t_flags t) = None"
  by (induction rule: templateFromNew.induct) (simp_all add: New_def template_mutator_defs)

lemma errorFromNew_tags: "errorFromNew e \<Longrightarrow> tags (flags e) = None"
proof (induction rule: errorFromNew.induct)
  case (eMake t rt depth)
  then show ?case by (simp add: make_error_def templateFromNew_tags)
next
  case (eTag e tag e')
  then show ?case by (simp add: tag_nil_panics)
next
  case (eTagStr e tag val e')
  then show ?case by (simp add: tag_nil_panics)
next
  case (eTagInt e tag n e')
  then show ?case by (simp add: tag_nil_panics)
qed (simp_all add: error_mutator_defs)

text \<open>
  C9. An error that comes from a template built by \<^verbatim>\<open>New\<close> has a nil tag map:
  \<^verbatim>\<open>Tag\<close>, \<^verbatim>\<open>TagStr\<close> and \<^verbatim>\<open>TagInt\<close> panic on it, while \<^verbatim>\<open>IsTagged\<close>,
  \<^verbatim>\<open>GetTagStr\<close> and \<^verbatim>\<open>GetTagInt\<close> return false, ("", false) and (0, false).
\<close>

theorem tags_of_errors_from_New:
  assumes "errorFromNew e"
  shows "Tag e tag = Inl NilMapAssignment \<and>
         TagStr e tag val = Inl NilMapAssignment \<and>
         TagInt e tag n = Inl NilMapAssignment \<and>
         IsTagged e tag = False \<and>
         GetTagStr e tag = ([], False) \<and>
         GetTagInt e tag = (0, False)"
  using errorFromNew_tags [OF assms]
  by (simp add: tag_nil_panics IsTagged_def GetTagStr_def GetTagInt_def mapIndex_def)

theorem tags_of_errors_from_New_witness:
  "errorFromNew sampleError \<and>
   Tag sampleError ''retry'' = Inl NilMapAssignment \<and>
   TagStr sampleError ''user'' ''bob'' = Inl NilMapAssignment \<and>
   TagInt sampleError ''count'' 3 = Inl NilMapAssignment \<and>
   IsTagged sampleError ''retry'' = False \<and>
   GetTagStr sampleError ''user'' = ([], False) \<and>
   GetTagInt sampleError ''count'' = (0, False)"
proof -
  have h: "errorFromNew sampleError"
    unfolding sampleError_def sampleTemplate_def Make_def
    by (intro eCause eSafe eUntrack eMake tMsg tNew)
  show ?thesis
    using h tags_of_errors_from_New [OF h, of "''retry''" "''bob''" 3]
      tags_of_errors_from_New [OF h, of "''user''" "''bob''" 3]
      tags_of_errors_from_New [OF h, of "''count''" "''bob''" 3]
    by simp
qed

subsection \<open>API response\<close>

text \<open>
  C10. With the override \<^verbatim>\<open>PrintUnsafeErrors\<close> off, on an error that is not safe, is
  tracked and has an id, \<^verbatim>\<open>API()\<close> returns the stored codes and the message
  "An error occured [ID <id>]".
\<close>

theorem API_placeholder_has_id_suffix:
  assumes "\<not> PrintUnsafeErrors" and "\<not> isSafe (flags err)"
    and "track (flags err)" and "GetID err \<noteq> []"
  shows "baseError_API PrintUnsafeErrors err =
           \<lparr>ResponseCode = httpCode (api err), ErrorCode = errCode (api err),
            Message = ''An error occured [ID '' @ GetID err @ '']''\<rparr>"
  using assms by (simp add: baseError_API_def GetID_def)

theorem API_placeholder_has_id_suffix_witness:
  "\<not> False \<and>
   \<not> isSafe (flags (Make sampleRuntime sampleTemplate)) \<and>
   track (flags (Make sampleRuntime sampleTemplate)) \<and>
   GetID (Make sampleRuntime sampleTemplate) = ''0000000000000000'' \<and>
   baseError_API False (Make sampleRuntime sampleTemplate) =
     \<lparr>ResponseCode = 500, ErrorCode = 0, Message = ''An error occured [ID 0000000000000000]''\<rparr>"
proof -
  have fl: "\<not> isSafe (flags (Make sampleRuntime sampleTemplate)) \<and>
      track (flags (Make sampleRuntime sampleTemplate))"
    by (simp add: Make_fields sampleTemplate_def New_def)
  have i: "GetID (Make sampleRuntime sampleTemplate) = ''0000000000000000''"
    by code_simp
  have a: "api (Make sampleRuntime sampleTemplate) = \<lparr>httpCode = 500, errCode = 0\<rparr>"
    by (simp add: Make_fields sampleTemplate_def New_def defaultHTTPCode_def defaultErrCode_def)
  show ?thesis
    using fl i a API_placeholder_has_id_suffix [of False "Make sampleRuntime sampleTemplate"]
    by simp
qed

end
